theory Spec2Isabelle
  imports Main "HOL-Library.Word"
begin

section \<open>The peer session of the overlay: data model\<close>

text \<open>
  The development embeds \<^verbatim>\<open>src/overlay/Peer.cpp\<close>. Every member function of
  \<^verbatim>\<open>Peer\<close> becomes a function that takes the collaborators' answers, the address of
  the session object, the session's member variables and the arguments, and returns
  the calls the function made on its collaborators, in the order it made them, together
  with either the C++ failure that ended it (an exception or a failed assertion) or the
  member variables as the function leaves them.

  The headers \<^verbatim>\<open>Peer.h\<close> and \<^verbatim>\<open>generated/StellarXDR.h\<close> and the collaborators
  (herder gateway, overlay gateway, database, transaction frames) are not part of the
  sources at hand. Their types are reconstructed from the way \<^verbatim>\<open>Peer.cpp\<close> uses them,
  their answers are parameters, and their calls are recorded as events.
\<close>

type_synonym uint256 = "256 word"
type_synonym bytes = "8 word list"

text \<open>The address of a session object, as \<^verbatim>\<open>shared_from_this()\<close> hands it out.\<close>

type_synonym PeerPtr = nat

datatype PeerRole = INITIATOR | ACCEPTOR

text \<open>
  Modelled from the spec: \<^verbatim>\<open>Peer.h\<close>, which declares the enumeration of the session
  states, is missing. The spec gives the ordered states Connecting, Connected and
  HandshakeComplete (\<^verbatim>\<open>CONNECTING\<close>, \<^verbatim>\<open>CONNECTED\<close> and \<^verbatim>\<open>GOT_HELLO\<close> in the code);
  \<open>PeerState_val\<close> is the enumerator's integer value, which \<^verbatim>\<open>mState < GOT_HELLO\<close>
  compares.
\<close>

datatype PeerState = CONNECTING | CONNECTED | GOT_HELLO

primrec PeerState_val :: "PeerState \<Rightarrow> nat" where
  "PeerState_val CONNECTING = 0"
| "PeerState_val CONNECTED = 1"
| "PeerState_val GOT_HELLO = 2"

text \<open>The message kinds, as the \<^verbatim>\<open>switch\<close> of \<^verbatim>\<open>Peer::recvMessage\<close> lists them.\<close>

datatype MessageType =
    ERROR_MSG | HELLO | DONT_HAVE | GET_PEERS | PEERS | GET_TX_SET | TX_SET
  | GET_VALIDATIONS | VALIDATIONS | TRANSACTION | GET_FBA_QUORUMSET | FBA_QUORUMSET
  | FBA_MESSAGE | JSON_TRANSACTION

record Hello =
  protocolVersion :: "32 word"
  versionStr :: string
  port :: "32 word"

text \<open>The fields \<^verbatim>\<open>type\<close> and \<^verbatim>\<open>reqHash\<close> of the XDR structure \<^verbatim>\<open>DontHave\<close>.\<close>

record DontHave =
  type :: MessageType
  reqHash :: uint256

text \<open>
  A peer address on the wire: \<^verbatim>\<open>ip\<close> is an \<^verbatim>\<open>xdr::opaque_array<4U>\<close>, four octets,
  never more and never fewer; \<open>peer_port\<close> is the field \<^verbatim>\<open>port\<close>.
\<close>

type_synonym opaque_array4 = "8 word \<times> 8 word \<times> 8 word \<times> 8 word"

record PeerAddress =
  ip :: opaque_array4
  peer_port :: "32 word"

text \<open>
  Modelled from the spec: the XDR payload types are declared in the missing
  \<^verbatim>\<open>generated/StellarXDR.h\<close>. The spec describes transaction sets, quorum sets and
  transactions as opaque content blobs, and a consensus envelope as a slot index with an
  opaque statement and signature. \<^verbatim>\<open>Peer.cpp\<close> reads \<^verbatim>\<open>envelope.statement.slotIndex\<close>
  and nothing else of them.
\<close>

datatype TransactionSet = TransactionSet bytes
datatype FBAQuorumSet = FBAQuorumSet bytes
datatype TransactionEnvelope = TransactionEnvelope bytes

record FBAStatement =
  slotIndex :: "64 word"
  body :: bytes

record FBAEnvelope =
  statement :: FBAStatement
  signature :: bytes

text \<open>The herder's in-memory forms of a transaction set and of a transaction.\<close>

datatype TxSetFrame = TxSetFrame bytes
datatype TransactionFrame = TransactionFrame bytes

text \<open>
  \<^verbatim>\<open>StellarMessage\<close> is an XDR union switched on the message kind: one arm for each kind.
  The arm of a kind is the one its handler reads: \<^verbatim>\<open>hello()\<close> for \<^verbatim>\<open>HELLO\<close>,
  \<^verbatim>\<open>dontHave()\<close> for \<^verbatim>\<open>DONT_HAVE\<close>, \<^verbatim>\<open>peers()\<close> for \<^verbatim>\<open>PEERS\<close>, \<^verbatim>\<open>txSetHash()\<close> for
  \<^verbatim>\<open>GET_TX_SET\<close>, \<^verbatim>\<open>txSet()\<close> for \<^verbatim>\<open>TX_SET\<close>, \<^verbatim>\<open>transaction()\<close> for \<^verbatim>\<open>TRANSACTION\<close>,
  \<^verbatim>\<open>qSetHash()\<close> for \<^verbatim>\<open>GET_FBA_QUORUMSET\<close>, \<^verbatim>\<open>qSet()\<close> for \<^verbatim>\<open>FBA_QUORUMSET\<close> and
  \<^verbatim>\<open>fbaMessage()\<close> for \<^verbatim>\<open>FBA_MESSAGE\<close>. The arms of the kinds whose handlers read
  nothing (\<^verbatim>\<open>ERROR_MSG\<close>, \<^verbatim>\<open>GET_VALIDATIONS\<close>, \<^verbatim>\<open>VALIDATIONS\<close>, \<^verbatim>\<open>JSON_TRANSACTION\<close>)
  are kept as uninterpreted bytes.
\<close>

datatype StellarMessage =
    M_ERROR_MSG bytes
  | M_HELLO Hello
  | M_DONT_HAVE DontHave
  | M_GET_PEERS
  | M_PEERS "PeerAddress list"
  | M_GET_TX_SET uint256
  | M_TX_SET TransactionSet
  | M_GET_VALIDATIONS bytes
  | M_VALIDATIONS bytes
  | M_TRANSACTION TransactionEnvelope
  | M_GET_FBA_QUORUMSET uint256
  | M_FBA_QUORUMSET FBAQuorumSet
  | M_FBA_MESSAGE FBAEnvelope
  | M_JSON_TRANSACTION bytes

text \<open>The discriminant, \<^verbatim>\<open>msg.type()\<close>.\<close>

fun StellarMessage_type :: "StellarMessage \<Rightarrow> MessageType" where
  "StellarMessage_type (M_ERROR_MSG _) = ERROR_MSG"
| "StellarMessage_type (M_HELLO _) = HELLO"
| "StellarMessage_type (M_DONT_HAVE _) = DONT_HAVE"
| "StellarMessage_type M_GET_PEERS = GET_PEERS"
| "StellarMessage_type (M_PEERS _) = PEERS"
| "StellarMessage_type (M_GET_TX_SET _) = GET_TX_SET"
| "StellarMessage_type (M_TX_SET _) = TX_SET"
| "StellarMessage_type (M_GET_VALIDATIONS _) = GET_VALIDATIONS"
| "StellarMessage_type (M_VALIDATIONS _) = VALIDATIONS"
| "StellarMessage_type (M_TRANSACTION _) = TRANSACTION"
| "StellarMessage_type (M_GET_FBA_QUORUMSET _) = GET_FBA_QUORUMSET"
| "StellarMessage_type (M_FBA_QUORUMSET _) = FBA_QUORUMSET"
| "StellarMessage_type (M_FBA_MESSAGE _) = FBA_MESSAGE"
| "StellarMessage_type (M_JSON_TRANSACTION _) = JSON_TRANSACTION"

text \<open>
  \<^verbatim>\<open>msg.type(t)\<close> on a message selects the arm of \<open>t\<close> and value-initialises it: numbers
  are zero, strings and sequences are empty.
\<close>

fun set_type :: "MessageType \<Rightarrow> StellarMessage" where
  "set_type ERROR_MSG = M_ERROR_MSG []"
| "set_type HELLO = M_HELLO \<lparr>protocolVersion = 0, versionStr = [], port = 0\<rparr>"
| "set_type DONT_HAVE = M_DONT_HAVE \<lparr>type = ERROR_MSG, reqHash = 0\<rparr>"
| "set_type GET_PEERS = M_GET_PEERS"
| "set_type PEERS = M_PEERS []"
| "set_type GET_TX_SET = M_GET_TX_SET 0"
| "set_type TX_SET = M_TX_SET (TransactionSet [])"
| "set_type GET_VALIDATIONS = M_GET_VALIDATIONS []"
| "set_type VALIDATIONS = M_VALIDATIONS []"
| "set_type TRANSACTION = M_TRANSACTION (TransactionEnvelope [])"
| "set_type GET_FBA_QUORUMSET = M_GET_FBA_QUORUMSET 0"
| "set_type FBA_QUORUMSET = M_FBA_QUORUMSET (FBAQuorumSet [])"
| "set_type FBA_MESSAGE =
     M_FBA_MESSAGE \<lparr>statement = \<lparr>slotIndex = 0, body = []\<rparr>, signature = []\<rparr>"
| "set_type JSON_TRANSACTION = M_JSON_TRANSACTION []"

subsection \<open>Failures, and the accessors of the union\<close>

text \<open>
  The ways a member function of \<^verbatim>\<open>Peer\<close> fails to return: the XDR library throws
  \<^verbatim>\<open>xdr_wrong_union\<close> when an arm is accessed that the discriminant does not select, and
  \<^verbatim>\<open>xdr_overflow\<close> when a sequence is resized beyond the bound its declaration gives it;
  \<^verbatim>\<open>assert(false)\<close> aborts the process (assertions are compiled in: \<^verbatim>\<open>NDEBUG\<close> is not
  defined).
\<close>

datatype error = xdr_wrong_union | xdr_overflow | assertion_failed

definition then_err :: "error + 'a \<Rightarrow> ('a \<Rightarrow> error + 'b) \<Rightarrow> error + 'b" where
  "then_err m f = (case m of Inl e \<Rightarrow> Inl e | Inr x \<Rightarrow> f x)"

text \<open>Reading an arm: \<^verbatim>\<open>msg.hello()\<close>, \<^verbatim>\<open>msg.txSetHash()\<close> and so on, on a constant message.\<close>

definition get_hello :: "StellarMessage \<Rightarrow> error + Hello" where
  "get_hello msg = (case msg of M_HELLO h \<Rightarrow> Inr h | _ \<Rightarrow> Inl xdr_wrong_union)"

definition get_dontHave :: "StellarMessage \<Rightarrow> error + DontHave" where
  "get_dontHave msg = (case msg of M_DONT_HAVE d \<Rightarrow> Inr d | _ \<Rightarrow> Inl xdr_wrong_union)"

definition get_peers :: "StellarMessage \<Rightarrow> error + PeerAddress list" where
  "get_peers msg = (case msg of M_PEERS ps \<Rightarrow> Inr ps | _ \<Rightarrow> Inl xdr_wrong_union)"

definition get_txSetHash :: "StellarMessage \<Rightarrow> error + uint256" where
  "get_txSetHash msg = (case msg of M_GET_TX_SET h \<Rightarrow> Inr h | _ \<Rightarrow> Inl xdr_wrong_union)"

definition get_txSet :: "StellarMessage \<Rightarrow> error + TransactionSet" where
  "get_txSet msg = (case msg of M_TX_SET s \<Rightarrow> Inr s | _ \<Rightarrow> Inl xdr_wrong_union)"

definition get_transaction :: "StellarMessage \<Rightarrow> error + TransactionEnvelope" where
  "get_transaction msg = (case msg of M_TRANSACTION t \<Rightarrow> Inr t | _ \<Rightarrow> Inl xdr_wrong_union)"

definition get_qSetHash :: "StellarMessage \<Rightarrow> error + uint256" where
  "get_qSetHash msg =
     (case msg of M_GET_FBA_QUORUMSET h \<Rightarrow> Inr h | _ \<Rightarrow> Inl xdr_wrong_union)"

definition get_qSet :: "StellarMessage \<Rightarrow> error + FBAQuorumSet" where
  "get_qSet msg = (case msg of M_FBA_QUORUMSET q \<Rightarrow> Inr q | _ \<Rightarrow> Inl xdr_wrong_union)"

definition get_fbaMessage :: "StellarMessage \<Rightarrow> error + FBAEnvelope" where
  "get_fbaMessage msg = (case msg of M_FBA_MESSAGE e \<Rightarrow> Inr e | _ \<Rightarrow> Inl xdr_wrong_union)"

text \<open>
  Writing through an arm: \<^verbatim>\<open>msg.hello().protocolVersion = v\<close>, \<^verbatim>\<open>msg.txSetHash() = h\<close>
  and so on. The accessor checks the discriminant before it hands out the reference.
\<close>

definition upd_hello :: "(Hello \<Rightarrow> Hello) \<Rightarrow> StellarMessage \<Rightarrow> error + StellarMessage" where
  "upd_hello f msg = (case msg of M_HELLO h \<Rightarrow> Inr (M_HELLO (f h)) | _ \<Rightarrow> Inl xdr_wrong_union)"

definition upd_dontHave ::
  "(DontHave \<Rightarrow> DontHave) \<Rightarrow> StellarMessage \<Rightarrow> error + StellarMessage" where
  "upd_dontHave f msg =
     (case msg of M_DONT_HAVE d \<Rightarrow> Inr (M_DONT_HAVE (f d)) | _ \<Rightarrow> Inl xdr_wrong_union)"

definition upd_peers ::
  "(PeerAddress list \<Rightarrow> PeerAddress list) \<Rightarrow> StellarMessage \<Rightarrow> error + StellarMessage" where
  "upd_peers f msg =
     (case msg of M_PEERS ps \<Rightarrow> Inr (M_PEERS (f ps)) | _ \<Rightarrow> Inl xdr_wrong_union)"

definition set_txSetHash :: "uint256 \<Rightarrow> StellarMessage \<Rightarrow> error + StellarMessage" where
  "set_txSetHash h msg =
     (case msg of M_GET_TX_SET _ \<Rightarrow> Inr (M_GET_TX_SET h) | _ \<Rightarrow> Inl xdr_wrong_union)"

definition set_txSet :: "TransactionSet \<Rightarrow> StellarMessage \<Rightarrow> error + StellarMessage" where
  "set_txSet s msg = (case msg of M_TX_SET _ \<Rightarrow> Inr (M_TX_SET s) | _ \<Rightarrow> Inl xdr_wrong_union)"

definition set_qSet :: "FBAQuorumSet \<Rightarrow> StellarMessage \<Rightarrow> error + StellarMessage" where
  "set_qSet q msg =
     (case msg of M_FBA_QUORUMSET _ \<Rightarrow> Inr (M_FBA_QUORUMSET q) | _ \<Rightarrow> Inl xdr_wrong_union)"

subsection \<open>The session, its collaborators and their calls\<close>

text \<open>The member variables of \<^verbatim>\<open>Peer\<close> that \<^verbatim>\<open>Peer.cpp\<close> reads and writes.\<close>

record Peer =
  mRole :: PeerRole
  mState :: PeerState
  mRemoteProtocolVersion :: "32 word"
  mRemoteVersion :: string
  mRemoteListeningPort :: "32 word"

text \<open>
  What the collaborators behind \<^verbatim>\<open>mApp\<close> answer. Each member function of \<^verbatim>\<open>Peer\<close> asks
  each of them at most once, so a function of the arguments stands for the answer.
  \<open>loadPeers n\<close> is the list that \<^verbatim>\<open>Database::loadPeers(n, peerList)\<close> leaves in the
  empty \<^verbatim>\<open>peerList\<close>. \<open>envelope_hash\<close> is \<^verbatim>\<open>sha512_256(xdr::xdr_to_msg(envelope))\<close>.
  \<open>peers_max_size\<close> is the bound that the missing XDR declaration gives the sequence
  \<^verbatim>\<open>peers\<close> (\<open>4294967295\<close> for a sequence declared without one).
\<close>

record Application =
  peers_max_size :: nat
  PROTOCOL_VERSION :: "32 word"
  VERSION_STR :: string
  fetchTxSet :: "uint256 \<Rightarrow> bool \<Rightarrow> TxSetFrame option"
  fetchFBAQuorumSet :: "uint256 \<Rightarrow> bool \<Rightarrow> FBAQuorumSet option"
  recvTransaction_accepts :: "TransactionFrame \<Rightarrow> bool"
  makeTransactionFromWire :: "TransactionEnvelope \<Rightarrow> TransactionFrame option"
  makeTxSetFrame :: "TransactionSet \<Rightarrow> TxSetFrame"
  toXDR :: "TxSetFrame \<Rightarrow> TransactionSet"
  loadPeers :: "nat \<Rightarrow> (string \<times> int) list"
  envelope_hash :: "FBAEnvelope \<Rightarrow> uint256"

text \<open>
  The calls a member function makes on what lies outside \<^verbatim>\<open>Peer.cpp\<close>:
  \<^item> \<open>SendMessage msg\<close>: the transport's \<^verbatim>\<open>sendMessage(xdr::msg_ptr&&)\<close> (pure virtual in
    \<^verbatim>\<open>Peer\<close>), with the serialised \<open>msg\<close>;
  \<^item> \<open>Drop\<close>: the transport's \<^verbatim>\<open>drop()\<close> (pure virtual in \<^verbatim>\<open>Peer\<close>), which ends the
    session;
  \<^item> the calls on the herder gateway: \<open>FetchTxSet\<close>, \<open>FetchFBAQuorumSet\<close>,
    \<open>DoesntHaveTxSet\<close>, \<open>DoesntHaveFBAQuorumSet\<close>, \<open>RecvTxSet\<close>, \<open>RecvFBAQuorumSet\<close>,
    \<open>RecvTransaction\<close>, \<open>RecvFBAEnvelope\<close>;
  \<^item> the calls on the overlay gateway: \<open>BroadcastMessage\<close>, \<open>RecvFloodedMsg\<close>;
  \<^item> the calls on the database: \<open>LoadPeers\<close>, \<open>AddPeer\<close>.
\<close>

datatype effect =
    SendMessage StellarMessage
  | Drop
  | FetchTxSet uint256 bool
  | FetchFBAQuorumSet uint256 bool
  | DoesntHaveTxSet uint256 PeerPtr
  | DoesntHaveFBAQuorumSet uint256 PeerPtr
  | RecvTxSet TxSetFrame
  | RecvFBAQuorumSet FBAQuorumSet
  | RecvTransaction TransactionFrame
  | RecvFBAEnvelope FBAEnvelope
  | BroadcastMessage StellarMessage PeerPtr
  | RecvFloodedMsg uint256 StellarMessage "64 word" PeerPtr
  | LoadPeers nat
  | AddPeer string "32 word"

text \<open>
  What a member function leaves behind: the calls it made, in order, and either the
  failure that ended it or the member variables as they are when it returns.
\<close>

type_synonym result = "effect list \<times> (error + Peer)"

text \<open>
  \<open>run m f\<close> goes on with \<open>f\<close> when the access \<open>m\<close> succeeded and fails with no call made
  otherwise; \<open>after effs r\<close> is \<open>r\<close> with the calls \<open>effs\<close> made before it.
\<close>

definition run :: "error + 'a \<Rightarrow> ('a \<Rightarrow> result) \<Rightarrow> result" where
  "run m f = (case m of Inl e \<Rightarrow> ([], Inl e) | Inr x \<Rightarrow> f x)"

definition after :: "effect list \<Rightarrow> result \<Rightarrow> result" where
  "after effs r = (effs @ fst r, snd r)"

section \<open>Sending\<close>

definition sendMessage :: "Peer \<Rightarrow> StellarMessage \<Rightarrow> result" where
  "sendMessage p msg = ([SendMessage msg], Inr p)"

definition drop_session :: "Peer \<Rightarrow> result" where
  "drop_session p = ([Drop], Inr p)"

definition sendHello :: "Application \<Rightarrow> Peer \<Rightarrow> result" where
  "sendHello app p =
     run (upd_hello (\<lambda>h. h\<lparr>protocolVersion := PROTOCOL_VERSION app\<rparr>) (set_type HELLO))
       (\<lambda>msg1. run (upd_hello (\<lambda>h. h\<lparr>versionStr := VERSION_STR app\<rparr>) msg1)
       (\<lambda>msg. sendMessage p msg))"

definition connectHandler :: "Application \<Rightarrow> Peer \<Rightarrow> bool \<Rightarrow> result" where
  "connectHandler app p err =
     (if err then drop_session p else sendHello app (p\<lparr>mState := CONNECTED\<rparr>))"

definition sendDontHave :: "Peer \<Rightarrow> MessageType \<Rightarrow> uint256 \<Rightarrow> result" where
  "sendDontHave p t itemID =
     run (upd_dontHave (\<lambda>d. d\<lparr>reqHash := itemID\<rparr>) (set_type DONT_HAVE))
       (\<lambda>msg1. run (upd_dontHave (\<lambda>d. d\<lparr>type := t\<rparr>) msg1)
       (\<lambda>msg. sendMessage p msg))"

definition sendFBAQuorumSet :: "Peer \<Rightarrow> FBAQuorumSet \<Rightarrow> result" where
  "sendFBAQuorumSet p qSet =
     run (set_qSet qSet (set_type FBA_QUORUMSET)) (\<lambda>msg. sendMessage p msg)"

definition sendGetTxSet :: "Peer \<Rightarrow> uint256 \<Rightarrow> result" where
  "sendGetTxSet p setID =
     run (set_txSetHash setID (set_type GET_TX_SET)) (\<lambda>newMsg. sendMessage p newMsg)"

definition sendGetQuorumSet :: "Peer \<Rightarrow> uint256 \<Rightarrow> result" where
  "sendGetQuorumSet p setID =
     run (set_txSetHash setID (set_type GET_FBA_QUORUMSET))
       (\<lambda>newMsg. sendMessage p newMsg)"

subsection \<open>Dotted-quad strings\<close>

text \<open>
  \<^verbatim>\<open>std::getline(ss, item, delim)\<close> on a string stream whose unread part is \<open>ss\<close>: it
  fails when nothing is left to read; otherwise the item is what stands before the first
  delimiter (or all of it, when there is none), and the delimiter is consumed.
\<close>

definition getline :: "string \<Rightarrow> char \<Rightarrow> (string \<times> string) option" where
  "getline ss delim =
     (if ss = [] then None
      else Some (takeWhile (\<lambda>c. c \<noteq> delim) ss, tl (dropWhile (\<lambda>c. c \<noteq> delim) ss)))"

text \<open>
  \<^verbatim>\<open>atoi(s)\<close> is \<^verbatim>\<open>(int) strtol(s, NULL, 10)\<close> in the GNU C library, with a \<^verbatim>\<open>long\<close> of
  64 bits and an \<^verbatim>\<open>int\<close> of 32. White space is skipped, then an optional sign and the
  decimal digits that follow are read; the number read is 0 when there is no digit.
  \<^verbatim>\<open>strtol\<close> returns \<^verbatim>\<open>LONG_MAX\<close> or \<^verbatim>\<open>LONG_MIN\<close> for a number beyond the range of
  \<^verbatim>\<open>long\<close>, and the conversion to \<^verbatim>\<open>int\<close> keeps the low 32 bits. (The C standard itself
  leaves \<^verbatim>\<open>atoi\<close> undefined for a number that does not fit an \<^verbatim>\<open>int\<close>.)
\<close>

definition isspace :: "char \<Rightarrow> bool" where
  "isspace c = (c = CHR '' '' \<or> c = CHR 0x09 \<or> c = CHR 0x0A \<or> c = CHR 0x0B
     \<or> c = CHR 0x0C \<or> c = CHR 0x0D)"

definition isdigit :: "char \<Rightarrow> bool" where
  "isdigit c = (48 \<le> (of_char c :: nat) \<and> (of_char c :: nat) \<le> 57)"

fun digits_value :: "int \<Rightarrow> string \<Rightarrow> int" where
  "digits_value acc [] = acc"
| "digits_value acc (c # cs) =
     (if isdigit c then digits_value (acc * 10 + (of_char c - 48)) cs else acc)"

definition decimal_value :: "string \<Rightarrow> int" where
  "decimal_value s =
     (case dropWhile isspace s of
        [] \<Rightarrow> 0
      | c # cs \<Rightarrow>
          if c = CHR ''-'' then - digits_value 0 cs
          else if c = CHR ''+'' then digits_value 0 cs
          else digits_value 0 (c # cs))"

definition LONG_MAX :: int where
  "LONG_MAX = 9223372036854775807"

definition LONG_MIN :: int where
  "LONG_MIN = - 9223372036854775808"

definition strtol :: "string \<Rightarrow> int" where
  "strtol s = max LONG_MIN (min LONG_MAX (decimal_value s))"

definition atoi :: "string \<Rightarrow> int" where
  "atoi s = sint (word_of_int (strtol s) :: 32 word)"

text \<open>\<^verbatim>\<open>ret[n] = v\<close> on an array of four octets; the loop below keeps \<open>n\<close> under 4.\<close>

definition array4_set :: "opaque_array4 \<Rightarrow> nat \<Rightarrow> 8 word \<Rightarrow> opaque_array4" where
  "array4_set ret n v =
     (case ret of (a0, a1, a2, a3) \<Rightarrow>
        if n = 0 then (v, a1, a2, a3)
        else if n = 1 then (a0, v, a2, a3)
        else if n = 2 then (a0, a1, v, a3)
        else if n = 3 then (a0, a1, a2, v)
        else ret)"

text \<open>
  The loop of \<^verbatim>\<open>Peer::ipFromStr\<close>: \<^verbatim>\<open>while(std::getline(ss, item, '.') && n<4)\<close>. The
  item is read before \<open>n\<close> is tested. The assignment converts the \<^verbatim>\<open>int\<close> to an octet.
\<close>

function ipFromStr_loop :: "string \<Rightarrow> nat \<Rightarrow> opaque_array4 \<Rightarrow> nat \<times> opaque_array4" where
  "ipFromStr_loop ss n ret =
     (case getline ss CHR ''.'' of
        None \<Rightarrow> (n, ret)
      | Some (item, ss') \<Rightarrow>
          if n < 4 then ipFromStr_loop ss' (Suc n) (array4_set ret n (word_of_int (atoi item)))
          else (n, ret))"
  by pat_completeness auto

termination ipFromStr_loop
proof (relation "measure (\<lambda>(ss, n, ret). length ss)")
  show "wf (measure (\<lambda>(ss, n, ret). length ss))" by simp
next
  fix ss :: string and n :: nat and ret :: opaque_array4 and x2 item ss'
  assume g: "getline ss CHR ''.'' = Some x2" and x2: "(item, ss') = x2"
  from g x2 have ne: "ss \<noteq> []" and eq: "ss' = tl (dropWhile (\<lambda>c. c \<noteq> CHR ''.'') ss)"
    by (auto simp: getline_def split: if_splits)
  have "length (dropWhile (\<lambda>c. c \<noteq> CHR ''.'') ss) \<le> length ss"
    by (rule length_dropWhile_le)
  with ne have "length (tl (dropWhile (\<lambda>c. c \<noteq> CHR ''.'') ss)) < length ss"
    by (cases "dropWhile (\<lambda>c. c \<noteq> CHR ''.'') ss") (simp_all del: dropWhile_eq_Nil_conv)
  with eq show "((ss', Suc n, array4_set ret n (word_of_int (atoi item))), (ss, n, ret))
      \<in> measure (\<lambda>(ss, n, ret). length ss)"
    by simp
qed

text \<open>
  \<^verbatim>\<open>Peer::ipFromStr(ipStr, ret)\<close>: the flag it returns (\<^verbatim>\<open>n==4\<close>), and \<open>ret\<close> as the loop
  leaves it.
\<close>

definition ipFromStr :: "string \<Rightarrow> opaque_array4 \<Rightarrow> bool \<times> opaque_array4" where
  "ipFromStr ipStr ret = (case ipFromStr_loop ipStr 0 ret of (n, ret') \<Rightarrow> (n = 4, ret'))"

text \<open>
  \<^verbatim>\<open>ip << (int)peer.ip[k]\<close>: an octet in decimal, and the four of them with dots between.
\<close>

definition digit_char :: "nat \<Rightarrow> char" where
  "digit_char d = ''0123456789'' ! d"

definition octet_string :: "8 word \<Rightarrow> string" where
  "octet_string b =
     (let v = unat b in
      if v < 10 then [digit_char v]
      else if v < 100 then [digit_char (v div 10), digit_char (v mod 10)]
      else [digit_char (v div 100), digit_char (v div 10 mod 10), digit_char (v mod 10)])"

definition ip_string :: "opaque_array4 \<Rightarrow> string" where
  "ip_string a =
     (case a of (a0, a1, a2, a3) \<Rightarrow>
        octet_string a0 @ ''.'' @ octet_string a1 @ ''.'' @ octet_string a2 @ ''.''
          @ octet_string a3)"

subsection \<open>The list of known peers\<close>

text \<open>
  \<^verbatim>\<open>newMsg.peers().resize(k)\<close>: the sequence refuses a size beyond its bound; the new
  elements are value-initialised.
\<close>

definition resize_peers :: "nat \<Rightarrow> nat \<Rightarrow> StellarMessage \<Rightarrow> error + StellarMessage" where
  "resize_peers max_size k msg =
     (case msg of
        M_PEERS ps \<Rightarrow>
          if max_size < k then Inl xdr_overflow
          else Inr (M_PEERS (take k ps
                 @ replicate (k - length ps) \<lparr>ip = (0, 0, 0, 0), peer_port = 0\<rparr>))
      | _ \<Rightarrow> Inl xdr_wrong_union)"

text \<open>
  The loop of \<^verbatim>\<open>Peer::sendPeers\<close>, from index \<open>n\<close> on. What \<^verbatim>\<open>ipFromStr\<close> returns is not
  looked at; the port, an \<^verbatim>\<open>int\<close>, is converted to the field's 32 bits.
\<close>

function sendPeers_loop ::
  "(string \<times> int) list \<Rightarrow> nat \<Rightarrow> StellarMessage \<Rightarrow> error + StellarMessage" where
  "sendPeers_loop peerList n newMsg =
     (if n < length peerList then
        then_err
          (upd_peers
             (\<lambda>ps. ps[n := (ps ! n)\<lparr>ip := snd (ipFromStr (fst (peerList ! n)) (ip (ps ! n)))\<rparr>])
             newMsg)
          (\<lambda>msg1. then_err
             (upd_peers
                (\<lambda>ps. ps[n := (ps ! n)\<lparr>peer_port := word_of_int (snd (peerList ! n))\<rparr>]) msg1)
          (\<lambda>msg2. sendPeers_loop peerList (Suc n) msg2))
      else Inr newMsg)"
  by pat_completeness auto

termination sendPeers_loop
  by (relation "measure (\<lambda>(peerList, n, newMsg). length peerList - n)") auto

definition sendPeers :: "Application \<Rightarrow> Peer \<Rightarrow> result" where
  "sendPeers app p =
     (let peerList = loadPeers app 50 in
      after [LoadPeers 50]
        (run (resize_peers (peers_max_size app) (length peerList) (set_type PEERS))
          (\<lambda>msg0. run (sendPeers_loop peerList 0 msg0)
          (\<lambda>newMsg. sendMessage p newMsg))))"

section \<open>Receiving\<close>

text \<open>
  The handlers, in the order of \<^verbatim>\<open>Peer.cpp\<close>. \<open>self\<close> is \<^verbatim>\<open>shared_from_this()\<close>.
\<close>

definition recvDontHave :: "PeerPtr \<Rightarrow> Peer \<Rightarrow> StellarMessage \<Rightarrow> result" where
  "recvDontHave self p msg =
     run (get_dontHave msg)
       (\<lambda>d. case type d of
          TX_SET \<Rightarrow> ([DoesntHaveTxSet (reqHash d) self], Inr p)
        | FBA_QUORUMSET \<Rightarrow> ([DoesntHaveFBAQuorumSet (reqHash d) self], Inr p)
        | _ \<Rightarrow> ([], Inr p))"

definition recvGetTxSet :: "Application \<Rightarrow> Peer \<Rightarrow> StellarMessage \<Rightarrow> result" where
  "recvGetTxSet app p msg =
     run (get_txSetHash msg)
       (\<lambda>h. after [FetchTxSet h False]
          (case fetchTxSet app h False of
             Some txSet \<Rightarrow>
               run (set_txSet (toXDR app txSet) (set_type TX_SET))
                 (\<lambda>newMsg. sendMessage p newMsg)
           | None \<Rightarrow> run (get_txSetHash msg) (\<lambda>h'. sendDontHave p TX_SET h')))"

definition recvTxSet :: "Application \<Rightarrow> Peer \<Rightarrow> StellarMessage \<Rightarrow> result" where
  "recvTxSet app p msg =
     run (get_txSet msg) (\<lambda>s. ([RecvTxSet (makeTxSetFrame app s)], Inr p))"

definition recvTransaction ::
  "Application \<Rightarrow> PeerPtr \<Rightarrow> Peer \<Rightarrow> StellarMessage \<Rightarrow> result" where
  "recvTransaction app self p msg =
     run (get_transaction msg)
       (\<lambda>env. case makeTransactionFromWire app env of
          Some transaction \<Rightarrow>
            if recvTransaction_accepts app transaction
            then ([RecvTransaction transaction, BroadcastMessage msg self], Inr p)
            else ([RecvTransaction transaction], Inr p)
        | None \<Rightarrow> ([], Inr p))"

definition recvGetFBAQuorumSet :: "Application \<Rightarrow> Peer \<Rightarrow> StellarMessage \<Rightarrow> result" where
  "recvGetFBAQuorumSet app p msg =
     run (get_qSetHash msg)
       (\<lambda>h. after [FetchFBAQuorumSet h False]
          (case fetchFBAQuorumSet app h False of
             Some qSet \<Rightarrow> sendFBAQuorumSet p qSet
           | None \<Rightarrow> run (get_qSetHash msg) (\<lambda>h'. sendDontHave p FBA_QUORUMSET h')))"

definition recvFBAQuorumSet :: "Peer \<Rightarrow> StellarMessage \<Rightarrow> result" where
  "recvFBAQuorumSet p msg = run (get_qSet msg) (\<lambda>q. ([RecvFBAQuorumSet q], Inr p))"

definition recvFBAMessage ::
  "Application \<Rightarrow> PeerPtr \<Rightarrow> Peer \<Rightarrow> StellarMessage \<Rightarrow> result" where
  "recvFBAMessage app self p msg =
     run (get_fbaMessage msg)
       (\<lambda>envelope.
          let envHash = envelope_hash app envelope in
          ([RecvFloodedMsg envHash msg (slotIndex (statement envelope)) self,
            RecvFBAEnvelope envelope], Inr p))"

definition recvError :: "Peer \<Rightarrow> StellarMessage \<Rightarrow> result" where
  "recvError p msg = ([], Inr p)"

definition recvHello :: "Peer \<Rightarrow> StellarMessage \<Rightarrow> result" where
  "recvHello p msg =
     run (get_hello msg)
       (\<lambda>h. ([], Inr (p\<lparr>mRemoteProtocolVersion := protocolVersion h,
                         mRemoteVersion := versionStr h,
                         mRemoteListeningPort := port h,
                         mState := GOT_HELLO\<rparr>)))"

definition recvGetPeers :: "Application \<Rightarrow> Peer \<Rightarrow> StellarMessage \<Rightarrow> result" where
  "recvGetPeers app p msg = sendPeers app p"

text \<open>The body of the loop of \<^verbatim>\<open>Peer::recvPeers\<close>, once for every entry, in order.\<close>

primrec recvPeers_loop :: "PeerAddress list \<Rightarrow> effect list" where
  "recvPeers_loop [] = []"
| "recvPeers_loop (peer # peers) =
     AddPeer (ip_string (ip peer)) (peer_port peer) # recvPeers_loop peers"

definition recvPeers :: "Peer \<Rightarrow> StellarMessage \<Rightarrow> result" where
  "recvPeers p msg = run (get_peers msg) (\<lambda>ps. (recvPeers_loop ps, Inr p))"

definition recvGetValidations :: "Peer \<Rightarrow> StellarMessage \<Rightarrow> result" where
  "recvGetValidations p msg = ([], Inr p)"

definition recvValidations :: "Peer \<Rightarrow> StellarMessage \<Rightarrow> result" where
  "recvValidations p msg = ([], Inr p)"

text \<open>\<^verbatim>\<open>Peer::recvMessage(StellarMessage const&)\<close>: the gate of the handshake, then the switch.\<close>

definition recvMessage ::
  "Application \<Rightarrow> PeerPtr \<Rightarrow> Peer \<Rightarrow> StellarMessage \<Rightarrow> result" where
  "recvMessage app self p stellarMsg =
     (if PeerState_val (mState p) < PeerState_val GOT_HELLO
         \<and> StellarMessage_type stellarMsg \<noteq> HELLO
      then drop_session p
      else
        case StellarMessage_type stellarMsg of
          ERROR_MSG \<Rightarrow> recvError p stellarMsg
        | HELLO \<Rightarrow> recvHello p stellarMsg
        | DONT_HAVE \<Rightarrow> recvDontHave self p stellarMsg
        | GET_PEERS \<Rightarrow> recvGetPeers app p stellarMsg
        | PEERS \<Rightarrow> recvPeers p stellarMsg
        | GET_TX_SET \<Rightarrow> recvGetTxSet app p stellarMsg
        | TX_SET \<Rightarrow> recvTxSet app p stellarMsg
        | GET_VALIDATIONS \<Rightarrow> recvGetValidations p stellarMsg
        | VALIDATIONS \<Rightarrow> recvValidations p stellarMsg
        | TRANSACTION \<Rightarrow> recvTransaction app self p stellarMsg
        | GET_FBA_QUORUMSET \<Rightarrow> recvGetFBAQuorumSet app p stellarMsg
        | FBA_QUORUMSET \<Rightarrow> recvFBAQuorumSet p stellarMsg
        | FBA_MESSAGE \<Rightarrow> recvFBAMessage app self p stellarMsg
        | JSON_TRANSACTION \<Rightarrow> ([], Inl assertion_failed))"

text \<open>
  The messages sent among the calls of a result, and the messages handed to the overlay
  gateway for broadcast (each with the session it came from), in order.
\<close>

primrec sent :: "effect list \<Rightarrow> StellarMessage list" where
  "sent [] = []"
| "sent (e # es) = (case e of SendMessage msg \<Rightarrow> msg # sent es | _ \<Rightarrow> sent es)"

primrec broadcasts :: "effect list \<Rightarrow> (StellarMessage \<times> PeerPtr) list" where
  "broadcasts [] = []"
| "broadcasts (e # es) =
     (case e of BroadcastMessage msg origin \<Rightarrow> (msg, origin) # broadcasts es
      | _ \<Rightarrow> broadcasts es)"

text \<open>
  The entry that one turn of the loop of \<^verbatim>\<open>Peer::sendPeers\<close> leaves on the wire for one
  element of the list of the database.
\<close>

definition wire_entry :: "string \<times> int \<Rightarrow> PeerAddress" where
  "wire_entry e =
     \<lparr>ip = snd (ipFromStr (fst e) (0, 0, 0, 0)), peer_port = word_of_int (snd e)\<rparr>"


subsection \<open>Sample sessions and nodes\<close>

text \<open>
  A connected session that has not received a \<^verbatim>\<open>HELLO\<close> yet (the constructor sets the
  port to -1), a session after the handshake, a node whose stores hold one transaction
  set and one quorum set under the hash 7, which admits the transaction \<open>[1]\<close> only, and
  whose database knows the addresses \<open>1.2.3.4\<close> and \<open>1.2.3\<close>, and the same node with a
  database that answers with 51 addresses.
\<close>

definition fresh_peer :: Peer where
  "fresh_peer = \<lparr>mRole = ACCEPTOR, mState = CONNECTED, mRemoteProtocolVersion = 0,
     mRemoteVersion = [], mRemoteListeningPort = - 1\<rparr>"

definition greeted_peer :: Peer where
  "greeted_peer = \<lparr>mRole = ACCEPTOR, mState = GOT_HELLO, mRemoteProtocolVersion = 1,
     mRemoteVersion = ''v1'', mRemoteListeningPort = 39133\<rparr>"

definition stocked_node :: Application where
  "stocked_node =
     \<lparr>peers_max_size = 4294967295,
      PROTOCOL_VERSION = 1,
      VERSION_STR = ''v1'',
      fetchTxSet = (\<lambda>h refresh. if h = 7 then Some (TxSetFrame [1, 2]) else None),
      fetchFBAQuorumSet = (\<lambda>h refresh. if h = 7 then Some (FBAQuorumSet [3]) else None),
      recvTransaction_accepts = (\<lambda>tx. tx = TransactionFrame [1]),
      makeTransactionFromWire =
        (\<lambda>env. case env of TransactionEnvelope b \<Rightarrow>
           if b = [] then None else Some (TransactionFrame b)),
      makeTxSetFrame = (\<lambda>s. case s of TransactionSet b \<Rightarrow> TxSetFrame b),
      toXDR = (\<lambda>f. case f of TxSetFrame b \<Rightarrow> TransactionSet b),
      loadPeers = (\<lambda>n. [(''1.2.3.4'', 100), (''1.2.3'', 0)]),
      envelope_hash = (\<lambda>e. 5)\<rparr>"

definition crowded_node :: Application where
  "crowded_node = stocked_node\<lparr>loadPeers := (\<lambda>n. replicate 51 (''10.0.0.1'', 39133))\<rparr>"

section \<open>What the loops compute\<close>

text \<open>
  The loop of \<^verbatim>\<open>sendPeers\<close> writes the entries one by one: started at \<open>n\<close> on a sequence
  whose first \<open>n\<close> entries are written and whose other entries are still zero, it ends
  with every entry written.
\<close>

lemma sendPeers_loop_fills:
  "n \<le> length peerList \<Longrightarrow>
   sendPeers_loop peerList n
     (M_PEERS (map wire_entry (take n peerList)
        @ replicate (length peerList - n) \<lparr>ip = (0, 0, 0, 0), peer_port = 0\<rparr>))
   = Inr (M_PEERS (map wire_entry peerList))"
proof (induction "length peerList - n" arbitrary: n)
  case 0
  then have "n = length peerList" by simp
  then show ?case by simp
next
  case (Suc k)
  then have lt: "n < length peerList" and k: "k = length peerList - Suc n" by simp_all
  let ?d = "\<lparr>ip = (0, 0, 0, 0), peer_port = 0\<rparr> :: PeerAddress"
  let ?done = "map wire_entry (take n peerList)"
  have len: "length ?done = n" using lt by simp
  have rep: "replicate (length peerList - n) ?d = ?d # replicate (length peerList - Suc n) ?d"
    using lt by (simp add: Suc_diff_Suc flip: replicate_Suc)
  have step: "sendPeers_loop peerList n (M_PEERS (?done @ replicate (length peerList - n) ?d))
      = sendPeers_loop peerList (Suc n)
          (M_PEERS (?done @ wire_entry (peerList ! n) # replicate (length peerList - Suc n) ?d))"
    using lt len
    by (subst sendPeers_loop.simps)
       (simp add: rep then_err_def upd_peers_def nth_append list_update_append wire_entry_def)
  have "?done @ wire_entry (peerList ! n) # replicate (length peerList - Suc n) ?d
      = map wire_entry (take (Suc n) peerList) @ replicate (length peerList - Suc n) ?d"
    using lt by (simp add: take_Suc_conv_app_nth)
  with step Suc.hyps(1)[OF k] lt show ?case by simp
qed

lemma sendPeers_eq:
  "sendPeers app p =
     (if peers_max_size app < length (loadPeers app 50) then ([LoadPeers 50], Inl xdr_overflow)
      else ([LoadPeers 50, SendMessage (M_PEERS (map wire_entry (loadPeers app 50)))], Inr p))"
  using sendPeers_loop_fills[of 0 "loadPeers app 50"]
  by (simp add: sendPeers_def Let_def run_def resize_peers_def after_def sendMessage_def)


lemma ipFromStr_samples:
  "ipFromStr ''1.2.3.4'' (0, 0, 0, 0) = (True, (1, 2, 3, 4))"
  "ipFromStr ''1.2.3'' (0, 0, 0, 0) = (False, (1, 2, 3, 0))"
  "ipFromStr ''10.0.0.1'' (0, 0, 0, 0) = (True, (10, 0, 0, 1))"
  by (simp_all add: ipFromStr_def getline_def atoi_def strtol_def decimal_value_def
      LONG_MAX_def LONG_MIN_def isspace_def isdigit_def array4_set_def)


subsection \<open>Octets in decimal\<close>




















subsection \<open>The member variables\<close>

text \<open>No handler but that of \<^verbatim>\<open>HELLO\<close> writes a member variable.\<close>

lemma recvMessage_keeps_peer:
  assumes "StellarMessage_type m \<noteq> HELLO" and "recvMessage app self p m = (effs, Inr p')"
  shows "p' = p"
  using assms
  by (cases m)
     (auto simp: recvMessage_def drop_session_def recvError_def recvDontHave_def
        recvGetPeers_def sendPeers_eq recvPeers_def recvGetTxSet_def recvTxSet_def
        recvGetValidations_def recvValidations_def recvTransaction_def
        recvGetFBAQuorumSet_def recvFBAQuorumSet_def recvFBAMessage_def
        run_def after_def sendMessage_def sendDontHave_def sendFBAQuorumSet_def
        get_dontHave_def get_peers_def get_txSetHash_def get_txSet_def get_transaction_def
        get_qSetHash_def get_qSet_def get_fbaMessage_def set_txSet_def set_qSet_def
        upd_dontHave_def Let_def
        split: if_splits option.splits MessageType.splits)

section \<open>The handshake gate\<close>

text \<open>
  C1. A session whose state is below \<^verbatim>\<open>GOT_HELLO\<close> that receives a message of any kind
  but \<^verbatim>\<open>HELLO\<close> calls \<^verbatim>\<open>drop()\<close> and nothing else: the drop is the single call it
  makes, so no message is sent in reply, and its member variables are as before.
\<close>

theorem recvMessage_before_hello_drops:
  assumes "PeerState_val (mState p) < PeerState_val GOT_HELLO"
    and "StellarMessage_type stellarMsg \<noteq> HELLO"
  shows "recvMessage app self p stellarMsg = ([Drop], Inr p)
       \<and> sent (fst (recvMessage app self p stellarMsg)) = []"
  using assms by (simp add: recvMessage_def drop_session_def)

theorem recvMessage_before_hello_drops_witness:
  "PeerState_val (mState fresh_peer) < PeerState_val GOT_HELLO
   \<and> StellarMessage_type M_GET_PEERS \<noteq> HELLO
   \<and> recvMessage stocked_node 1 fresh_peer M_GET_PEERS = ([Drop], Inr fresh_peer)
   \<and> sent (fst (recvMessage stocked_node 1 fresh_peer M_GET_PEERS)) = []"
  using recvMessage_before_hello_drops[of fresh_peer M_GET_PEERS stocked_node 1]
  by (simp add: fresh_peer_def)

section \<open>Answering requests by hash\<close>

text \<open>
  C2. After the handshake, \<^verbatim>\<open>GET_TX_SET\<close> with the hash \<open>h\<close> makes one lookup in the
  herder's store and sends one message: the \<^verbatim>\<open>TX_SET\<close> message with the set found, or,
  when the store has none, the \<^verbatim>\<open>DONT_HAVE\<close> message whose kind is \<^verbatim>\<open>TX_SET\<close> and whose
  hash is \<open>h\<close>. \<^verbatim>\<open>GET_FBA_QUORUMSET\<close> does the same with quorum sets and the kind
  \<^verbatim>\<open>FBA_QUORUMSET\<close>.
\<close>

theorem recvMessage_fetch_reply:
  assumes "mState p = GOT_HELLO"
  shows "recvMessage app self p (M_GET_TX_SET h) =
           ([FetchTxSet h False,
             SendMessage (case fetchTxSet app h False of
                Some txSet \<Rightarrow> M_TX_SET (toXDR app txSet)
              | None \<Rightarrow> M_DONT_HAVE \<lparr>type = TX_SET, reqHash = h\<rparr>)], Inr p)
       \<and> recvMessage app self p (M_GET_FBA_QUORUMSET h) =
           ([FetchFBAQuorumSet h False,
             SendMessage (case fetchFBAQuorumSet app h False of
                Some qSet \<Rightarrow> M_FBA_QUORUMSET qSet
              | None \<Rightarrow> M_DONT_HAVE \<lparr>type = FBA_QUORUMSET, reqHash = h\<rparr>)], Inr p)"
  using assms
  by (simp add: recvMessage_def recvGetTxSet_def recvGetFBAQuorumSet_def run_def
      get_txSetHash_def get_qSetHash_def set_txSet_def set_qSet_def after_def sendMessage_def
      sendDontHave_def sendFBAQuorumSet_def upd_dontHave_def split: option.split)

theorem recvMessage_fetch_reply_witness:
  "mState greeted_peer = GOT_HELLO
   \<and> recvMessage stocked_node 1 greeted_peer (M_GET_TX_SET 7) =
       ([FetchTxSet 7 False, SendMessage (M_TX_SET (TransactionSet [1, 2]))], Inr greeted_peer)
   \<and> recvMessage stocked_node 1 greeted_peer (M_GET_TX_SET 8) =
       ([FetchTxSet 8 False, SendMessage (M_DONT_HAVE \<lparr>type = TX_SET, reqHash = 8\<rparr>)],
        Inr greeted_peer)
   \<and> recvMessage stocked_node 1 greeted_peer (M_GET_FBA_QUORUMSET 7) =
       ([FetchFBAQuorumSet 7 False, SendMessage (M_FBA_QUORUMSET (FBAQuorumSet [3]))],
        Inr greeted_peer)
   \<and> recvMessage stocked_node 1 greeted_peer (M_GET_FBA_QUORUMSET 8) =
       ([FetchFBAQuorumSet 8 False,
         SendMessage (M_DONT_HAVE \<lparr>type = FBA_QUORUMSET, reqHash = 8\<rparr>)], Inr greeted_peer)"
  using recvMessage_fetch_reply[of greeted_peer stocked_node 1 7]
    recvMessage_fetch_reply[of greeted_peer stocked_node 1 8]
  by (simp add: greeted_peer_def stocked_node_def)

text \<open>
  C9. \<^verbatim>\<open>Peer::sendGetQuorumSet\<close> selects the kind \<^verbatim>\<open>GET_FBA_QUORUMSET\<close> and then writes
  the hash through \<^verbatim>\<open>txSetHash()\<close>, the arm of \<^verbatim>\<open>GET_TX_SET\<close>: the access is refused with
  \<^verbatim>\<open>xdr_wrong_union\<close> and no message is sent, whatever the hash. \<^verbatim>\<open>Peer::sendGetTxSet\<close>,
  written the same way, selects the kind whose arm it writes and sends its message; and
  the arm that the handler of \<^verbatim>\<open>GET_FBA_QUORUMSET\<close> reads, \<^verbatim>\<open>qSetHash()\<close>, is not the one
  \<^verbatim>\<open>txSetHash()\<close> writes.
\<close>

theorem sendGetQuorumSet_throws:
  "sendGetQuorumSet p setID = ([], Inl xdr_wrong_union)
   \<and> sendGetTxSet p setID = ([SendMessage (M_GET_TX_SET setID)], Inr p)
   \<and> get_qSetHash (M_GET_TX_SET setID) = Inl xdr_wrong_union"
  by (simp add: sendGetQuorumSet_def sendGetTxSet_def run_def set_txSetHash_def sendMessage_def
      get_qSetHash_def)

section \<open>Flooding\<close>

text \<open>
  C3. After the handshake, a received \<^verbatim>\<open>FBA_MESSAGE\<close> makes exactly two calls, in this
  order: the overlay gateway's \<^verbatim>\<open>recvFloodedMsg\<close> with the hash of the envelope, the
  message as received, the slot index of the envelope's statement and this session; then
  the herder gateway's \<^verbatim>\<open>recvFBAEnvelope\<close> with the envelope. The second call depends on
  no answer of the first: whatever the node answers, the envelope is delivered.
\<close>

theorem recvMessage_fba_message_delivers:
  assumes "mState p = GOT_HELLO"
  shows "recvMessage app self p (M_FBA_MESSAGE envelope) =
           ([RecvFloodedMsg (envelope_hash app envelope) (M_FBA_MESSAGE envelope)
               (slotIndex (statement envelope)) self,
             RecvFBAEnvelope envelope], Inr p)"
  using assms
  by (simp add: recvMessage_def recvFBAMessage_def run_def get_fbaMessage_def)

theorem recvMessage_fba_message_delivers_witness:
  "mState greeted_peer = GOT_HELLO
   \<and> recvMessage stocked_node 1 greeted_peer
       (M_FBA_MESSAGE \<lparr>statement = \<lparr>slotIndex = 9, body = [1]\<rparr>, signature = [2]\<rparr>) =
       ([RecvFloodedMsg 5
           (M_FBA_MESSAGE \<lparr>statement = \<lparr>slotIndex = 9, body = [1]\<rparr>, signature = [2]\<rparr>) 9 1,
         RecvFBAEnvelope \<lparr>statement = \<lparr>slotIndex = 9, body = [1]\<rparr>, signature = [2]\<rparr>],
        Inr greeted_peer)"
  using recvMessage_fba_message_delivers[of greeted_peer stocked_node 1
      "\<lparr>statement = \<lparr>slotIndex = 9, body = [1]\<rparr>, signature = [2]\<rparr>"]
  by (simp add: greeted_peer_def stocked_node_def)

text \<open>
  C4. After the handshake, a received \<^verbatim>\<open>TRANSACTION\<close> whose payload deserialises is handed
  to the herder gateway's \<^verbatim>\<open>recvTransaction\<close>; the message as received is passed to the
  overlay gateway's \<^verbatim>\<open>broadcastMessage\<close>, with this session as its origin, exactly when
  the herder accepts the transaction; when the herder rejects it nothing is broadcast.
\<close>

theorem recvMessage_transaction_broadcast:
  assumes "mState p = GOT_HELLO" and "makeTransactionFromWire app env = Some tx"
  shows "recvMessage app self p (M_TRANSACTION env) =
           (RecvTransaction tx #
              (if recvTransaction_accepts app tx then [BroadcastMessage (M_TRANSACTION env) self]
               else []), Inr p)
       \<and> broadcasts (fst (recvMessage app self p (M_TRANSACTION env))) =
           (if recvTransaction_accepts app tx then [(M_TRANSACTION env, self)] else [])"
  using assms
  by (simp add: recvMessage_def recvTransaction_def run_def get_transaction_def)

theorem recvMessage_transaction_broadcast_witness:
  "mState greeted_peer = GOT_HELLO
   \<and> makeTransactionFromWire stocked_node (TransactionEnvelope [1]) = Some (TransactionFrame [1])
   \<and> makeTransactionFromWire stocked_node (TransactionEnvelope [2]) = Some (TransactionFrame [2])
   \<and> recvMessage stocked_node 1 greeted_peer (M_TRANSACTION (TransactionEnvelope [1])) =
       ([RecvTransaction (TransactionFrame [1]),
         BroadcastMessage (M_TRANSACTION (TransactionEnvelope [1])) 1], Inr greeted_peer)
   \<and> recvMessage stocked_node 1 greeted_peer (M_TRANSACTION (TransactionEnvelope [2])) =
       ([RecvTransaction (TransactionFrame [2])], Inr greeted_peer)
   \<and> broadcasts (fst (recvMessage stocked_node 1 greeted_peer
        (M_TRANSACTION (TransactionEnvelope [2])))) = []"
  using recvMessage_transaction_broadcast[of greeted_peer stocked_node "TransactionEnvelope [1]"
      "TransactionFrame [1]" 1]
    recvMessage_transaction_broadcast[of greeted_peer stocked_node "TransactionEnvelope [2]"
      "TransactionFrame [2]" 1]
  by (simp add: greeted_peer_def stocked_node_def)

text \<open>
  C10. A received \<^verbatim>\<open>TRANSACTION\<close> whose payload does not deserialise
  (\<^verbatim>\<open>makeTransactionFromWire\<close> returns null) leaves no trace: the handler makes no call at
  all (no drop, no message, nothing to the herder or the overlay gateway) and the member
  variables are as before; so does \<^verbatim>\<open>recvMessage\<close> on a session after the handshake.
\<close>

theorem recvTransaction_undecodable_ignored:
  assumes "makeTransactionFromWire app env = None"
  shows "recvTransaction app self p (M_TRANSACTION env) = ([], Inr p)
       \<and> (mState p = GOT_HELLO \<longrightarrow> recvMessage app self p (M_TRANSACTION env) = ([], Inr p))"
  using assms
  by (simp add: recvMessage_def recvTransaction_def run_def get_transaction_def)

theorem recvTransaction_undecodable_ignored_witness:
  "makeTransactionFromWire stocked_node (TransactionEnvelope []) = None
   \<and> mState greeted_peer = GOT_HELLO
   \<and> recvTransaction stocked_node 1 greeted_peer (M_TRANSACTION (TransactionEnvelope [])) =
       ([], Inr greeted_peer)
   \<and> recvMessage stocked_node 1 greeted_peer (M_TRANSACTION (TransactionEnvelope [])) =
       ([], Inr greeted_peer)"
  using recvTransaction_undecodable_ignored[of stocked_node "TransactionEnvelope []" 1
      greeted_peer]
  by (simp add: greeted_peer_def stocked_node_def)

section \<open>A kind without a handler\<close>

text \<open>
  C8. After the handshake, a received \<^verbatim>\<open>JSON_TRANSACTION\<close> fails the assertion of the
  switch: the process aborts, and the session makes no call before it, in particular no
  \<^verbatim>\<open>drop()\<close>.
\<close>

theorem recvMessage_json_transaction_aborts:
  assumes "mState p = GOT_HELLO"
  shows "recvMessage app self p (M_JSON_TRANSACTION payload) = ([], Inl assertion_failed)"
  using assms by (simp add: recvMessage_def)

theorem recvMessage_json_transaction_aborts_witness:
  "mState greeted_peer = GOT_HELLO
   \<and> recvMessage stocked_node 1 greeted_peer (M_JSON_TRANSACTION [0]) = ([], Inl assertion_failed)"
  using recvMessage_json_transaction_aborts[of greeted_peer stocked_node 1 "[0]"]
  by (simp add: greeted_peer_def)

section \<open>The identity of the remote side\<close>

text \<open>
  C5, as the code has it. Every received \<^verbatim>\<open>HELLO\<close>, the first and any later one, assigns
  the three identity fields the values it carries and sets the state to \<^verbatim>\<open>GOT_HELLO\<close>;
  a message of any other kind leaves the three fields as they are.
\<close>

theorem recvMessage_identity_fields:
  "recvMessage app self p (M_HELLO h) =
     ([], Inr (p\<lparr>mRemoteProtocolVersion := protocolVersion h, mRemoteVersion := versionStr h,
               mRemoteListeningPort := port h, mState := GOT_HELLO\<rparr>))
   \<and> (StellarMessage_type m \<noteq> HELLO \<longrightarrow> recvMessage app self p m = (effs, Inr p') \<longrightarrow>
        mRemoteProtocolVersion p' = mRemoteProtocolVersion p
        \<and> mRemoteVersion p' = mRemoteVersion p
        \<and> mRemoteListeningPort p' = mRemoteListeningPort p)"
proof -
  have "recvMessage app self p (M_HELLO h) =
     ([], Inr (p\<lparr>mRemoteProtocolVersion := protocolVersion h, mRemoteVersion := versionStr h,
               mRemoteListeningPort := port h, mState := GOT_HELLO\<rparr>))"
    by (simp add: recvMessage_def recvHello_def run_def get_hello_def)
  moreover have "p' = p"
    if "StellarMessage_type m \<noteq> HELLO" and "recvMessage app self p m = (effs, Inr p')"
    using that by (rule recvMessage_keeps_peer)
  ultimately show ?thesis by blast
qed

theorem recvMessage_identity_fields_witness:
  "recvMessage stocked_node 1 greeted_peer
      (M_HELLO \<lparr>protocolVersion = 2, versionStr = ''v2'', port = 11625\<rparr>)
     = ([], Inr (greeted_peer\<lparr>mRemoteProtocolVersion := 2, mRemoteVersion := ''v2'',
                   mRemoteListeningPort := 11625, mState := GOT_HELLO\<rparr>))
   \<and> StellarMessage_type (M_TX_SET (TransactionSet [4])) \<noteq> HELLO
   \<and> recvMessage stocked_node 1 greeted_peer (M_TX_SET (TransactionSet [4]))
     = ([RecvTxSet (TxSetFrame [4])], Inr greeted_peer)
   \<and> mRemoteProtocolVersion greeted_peer = 1
   \<and> mRemoteVersion greeted_peer = ''v1''
   \<and> mRemoteListeningPort greeted_peer = 39133"
  using recvMessage_identity_fields[of stocked_node 1 greeted_peer
      "\<lparr>protocolVersion = 2, versionStr = ''v2'', port = 11625\<rparr>"
      "M_TX_SET (TransactionSet [4])" "[RecvTxSet (TxSetFrame [4])]" greeted_peer]
  by (simp add: recvMessage_def recvTxSet_def run_def get_txSet_def greeted_peer_def
      stocked_node_def)

text \<open>
  A second \<^verbatim>\<open>HELLO\<close> is not ignored: the session that the first one brought to the
  identity (1, \<open>v1\<close>, 39133) has the identity (2, \<open>v2\<close>, 11625) after the second.
\<close>

theorem second_hello_overwrites_identity:
  "recvMessage stocked_node 1 fresh_peer
      (M_HELLO \<lparr>protocolVersion = 1, versionStr = ''v1'', port = 39133\<rparr>)
     = ([], Inr greeted_peer)
   \<and> recvMessage stocked_node 1 greeted_peer
      (M_HELLO \<lparr>protocolVersion = 2, versionStr = ''v2'', port = 11625\<rparr>)
     = ([], Inr (greeted_peer\<lparr>mRemoteProtocolVersion := 2, mRemoteVersion := ''v2'',
                   mRemoteListeningPort := 11625\<rparr>))
   \<and> mRemoteProtocolVersion greeted_peer = 1
   \<and> mRemoteVersion greeted_peer = ''v1''
   \<and> mRemoteListeningPort greeted_peer = 39133"
  by (simp add: recvMessage_def recvHello_def run_def get_hello_def fresh_peer_def
      greeted_peer_def)

section \<open>Exchanging known peers\<close>

text \<open>
  C6, as the code has it. After the handshake, \<^verbatim>\<open>GET_PEERS\<close> asks the database for 50
  addresses and sends one \<^verbatim>\<open>PEERS\<close> message with one entry for every element of the
  answer, in order: the message has as many entries as the database returned, hence at
  most 50 when the database returned at most 50. \<^verbatim>\<open>sendPeers\<close> has no cap of its own;
  only an answer longer than the bound of the XDR sequence is refused, with
  \<^verbatim>\<open>xdr_overflow\<close>, and then nothing is sent.
\<close>

theorem sendPeers_entry_count:
  assumes "mState p = GOT_HELLO"
  shows "recvMessage app self p M_GET_PEERS =
           (if peers_max_size app < length (loadPeers app 50)
            then ([LoadPeers 50], Inl xdr_overflow)
            else ([LoadPeers 50, SendMessage (M_PEERS (map wire_entry (loadPeers app 50)))],
                  Inr p))
       \<and> length (map wire_entry (loadPeers app 50)) = length (loadPeers app 50)
       \<and> (length (loadPeers app 50) \<le> 50 \<longrightarrow> length (map wire_entry (loadPeers app 50)) \<le> 50)"
  using assms by (simp add: recvMessage_def recvGetPeers_def sendPeers_eq)

theorem sendPeers_entry_count_witness:
  "mState greeted_peer = GOT_HELLO
   \<and> recvMessage stocked_node 1 greeted_peer M_GET_PEERS =
       ([LoadPeers 50,
         SendMessage (M_PEERS [\<lparr>ip = (1, 2, 3, 4), peer_port = 100\<rparr>,
                               \<lparr>ip = (1, 2, 3, 0), peer_port = 0\<rparr>])], Inr greeted_peer)
   \<and> length (loadPeers stocked_node 50) = 2"
  using sendPeers_entry_count[of greeted_peer stocked_node 1]
  by (simp add: greeted_peer_def stocked_node_def wire_entry_def ipFromStr_samples)

text \<open>
  A database that answers the query for 50 addresses with 51 gets all 51 sent, in a
  sequence declared without a bound.
\<close>

theorem sendPeers_over_fifty:
  "peers_max_size crowded_node = 4294967295
   \<and> length (loadPeers crowded_node 50) = 51
   \<and> recvMessage crowded_node 1 greeted_peer M_GET_PEERS =
     ([LoadPeers 50,
       SendMessage (M_PEERS (replicate 51 \<lparr>ip = (10, 0, 0, 1), peer_port = 39133\<rparr>))],
      Inr greeted_peer)
   \<and> length (replicate 51 \<lparr>ip = (10, 0, 0, 1), peer_port = 39133\<rparr>) = 51"
  by (simp add: recvMessage_def recvGetPeers_def sendPeers_eq greeted_peer_def crowded_node_def
      stocked_node_def wire_entry_def ipFromStr_samples)

text \<open>
  On the sending side what \<^verbatim>\<open>ipFromStr\<close> returns is not looked at: the address \<open>1.2.3\<close>
  of the database, which \<^verbatim>\<open>ipFromStr\<close> refuses, is sent as the entry 1.2.3.0.
\<close>

lemma sendPeers_sends_refused_address:
  "loadPeers stocked_node 50 = [(''1.2.3.4'', 100), (''1.2.3'', 0)]
   \<and> ipFromStr ''1.2.3'' (0, 0, 0, 0) = (False, (1, 2, 3, 0))
   \<and> sendPeers stocked_node greeted_peer =
       ([LoadPeers 50,
         SendMessage (M_PEERS [\<lparr>ip = (1, 2, 3, 4), peer_port = 100\<rparr>,
                               \<lparr>ip = (1, 2, 3, 0), peer_port = 0\<rparr>])], Inr greeted_peer)"
  by (simp add: sendPeers_eq greeted_peer_def stocked_node_def wire_entry_def ipFromStr_samples)



end
